theory Spec2Isabelle
  imports Main "HOL-Library.AList"
begin

section \<open>JavaScript values and objects\<close>

text \<open>
  The service of \<^verbatim>\<open>src/services/auth.service.js\<close> handles plain JavaScript objects
  (\<^verbatim>\<open>Record<string, any>\<close>): the property map of a User node, the claims of a token and the
  record handed back to the caller. A value is one of the JSON-like values such an object
  holds, with \<^verbatim>\<open>undefined\<close> as a value of its own.
\<close>

datatype jsval = Undefined | Null | Bool bool | Num int | Str string

text \<open>
  An object is the list of its own enumerable properties in insertion order. Reading a
  property that is absent yields \<^verbatim>\<open>undefined\<close>; writing a property keeps the place of
  a key that exists and appends a new one; the rest pattern \<^verbatim>\<open>{ password, ...rest }\<close>
  leaves the named key out.
\<close>

type_synonym obj = "(string \<times> jsval) list"

definition prop_get :: "obj \<Rightarrow> string \<Rightarrow> jsval" where
  "prop_get ob k = (case map_of ob k of None \<Rightarrow> Undefined | Some v \<Rightarrow> v)"

definition prop_set :: "obj \<Rightarrow> string \<Rightarrow> jsval \<Rightarrow> obj" where
  "prop_set ob k v = AList.update k v ob"

definition prop_omit :: "string \<Rightarrow> obj \<Rightarrow> obj" where
  "prop_omit k ob = AList.delete k ob"

definition has_prop :: "obj \<Rightarrow> string \<Rightarrow> bool" where
  "has_prop ob k = (map_of ob k \<noteq> None)"

section \<open>Claims translation\<close>

text \<open>
  \<^verbatim>\<open>userToClaims(user) { const { name, userId } = user; return { sub: userId, userId, name, } }\<close>
\<close>

definition userToClaims :: "obj \<Rightarrow> obj" where
  "userToClaims user =
     (let name = prop_get user ''name'';
          userId = prop_get user ''userId''
      in prop_set (prop_set (prop_set [] ''sub'' userId) ''userId'' userId) ''name'' name)"

text \<open>
  \<^verbatim>\<open>async claimsToUser(claims) { return { ...claims, userId: claims.sub, } }\<close>
  The function awaits nothing; the model is the value its promise resolves to.
\<close>

definition claimsToUser :: "obj \<Rightarrow> obj" where
  "claimsToUser claims = prop_set claims ''userId'' (prop_get claims ''sub'')"

section \<open>Errors\<close>

text \<open>
  Modelled from the spec: the class \<^verbatim>\<open>ValidationError\<close> of
  \<^verbatim>\<open>src/errors/validation.error.js\<close> is not among the sources. It is built from a
  human-readable summary and a map from field names to messages.

  The other constructors are what the collaborators and the language reject with. The driver
  of the Graph Store rejects with an error that carries a status code and a message; the
  credential toolkit (password hashing and token signing) throws plain errors with a message
  only; reading a property of \<^verbatim>\<open>undefined\<close> is a type error of the language.
\<close>

datatype error =
    Neo4jError string string
  | Error string
  | TypeError string
  | ValidationError string "(string \<times> string) list"

text \<open>
  The \<^verbatim>\<open>code\<close> property the handler of \<^verbatim>\<open>register\<close> inspects, where it is a status
  code of the store.
\<close>

fun error_code :: "error \<Rightarrow> string option" where
  "error_code (Neo4jError c m) = Some c"
| "error_code (Error m) = None"
| "error_code (TypeError m) = None"
| "error_code (ValidationError m d) = None"

section \<open>The collaborators and the world they act on\<close>

text \<open>
  The two Cypher statements of the source:
  \<^verbatim>\<open>CREATE (u:User { userId: randomUuid(), email: $email, password: $encrypted, name: $name }) RETURN u\<close>
  and \<^verbatim>\<open>MATCH (u:User {email: $email}) RETURN u\<close>; and the two ways a session runs a
  unit of work, \<^verbatim>\<open>executeWrite\<close> and \<^verbatim>\<open>executeRead\<close>.
\<close>

datatype cypher = CreateUser | MatchUserByEmail

datatype access = WriteAccess | ReadAccess

text \<open>
  Every call on a collaborator is recorded, with the arguments it was given, so that the
  order of the calls and what was forwarded to them can be stated.
\<close>

datatype event =
    EvHash string int
  | EvSession nat
  | EvRun nat access cypher obj
  | EvClose nat
  | EvCompare string jsval
  | EvSign obj string

text \<open>
  The world: the contents of the Graph Store (of a type the service knows nothing about),
  the sessions handed out so far, those on which \<^verbatim>\<open>close\<close> has not been called yet, and
  the record of calls.
\<close>

record 'db world =
  db :: 'db
  next_session :: nat
  open_sessions :: "nat list"
  calls :: "event list"

text \<open>
  The collaborators are parameters of the service. \<^verbatim>\<open>bcrypt_hash\<close> and
  \<^verbatim>\<open>bcrypt_compare\<close> are \<^verbatim>\<open>hash\<close> and \<^verbatim>\<open>compare\<close> of bcrypt,
  \<^verbatim>\<open>jwt_sign\<close> and \<^verbatim>\<open>jwt_verify\<close> those of jsonwebtoken (\<open>Inl\<close> is the message of
  the error thrown). \<^verbatim>\<open>execute\<close> is what a session answers to a unit of work that runs
  one statement with its parameters: the \<^verbatim>\<open>u\<close> column of the records, each the property
  map of a node, or the status code and message of the failure, and the store afterwards.
  \<^verbatim>\<open>close_fails\<close> is the failure, if any, that \<^verbatim>\<open>close\<close> of a session rejects with.
  \<^verbatim>\<open>JWT_SECRET\<close> and \<^verbatim>\<open>SALT_ROUNDS\<close> are the constants of \<^verbatim>\<open>src/constants.js\<close>,
  the latter as \<^verbatim>\<open>parseInt\<close> reads it.
\<close>

record 'db env =
  bcrypt_hash :: "string \<Rightarrow> int \<Rightarrow> string + string"
  bcrypt_compare :: "string \<Rightarrow> jsval \<Rightarrow> string + bool"
  jwt_sign :: "obj \<Rightarrow> string \<Rightarrow> string + string"
  jwt_verify :: "string \<Rightarrow> string \<Rightarrow> string + obj"
  execute :: "access \<Rightarrow> cypher \<Rightarrow> obj \<Rightarrow> 'db \<Rightarrow> ((string \<times> string) + obj list) \<times> 'db"
  close_fails :: "nat \<Rightarrow> (string \<times> string) option"
  JWT_SECRET :: string
  SALT_ROUNDS :: int

definition record_call :: "event \<Rightarrow> 'db world \<Rightarrow> 'db world" where
  "record_call ev w = w\<lparr>calls := calls w @ [ev]\<rparr>"

text \<open>\<^verbatim>\<open>this.driver.session()\<close>: a fresh session, open from now on.\<close>

definition driver_session :: "'db world \<Rightarrow> nat \<times> 'db world" where
  "driver_session w =
     (next_session w,
      record_call (EvSession (next_session w))
        (w\<lparr>next_session := Suc (next_session w),
           open_sessions := next_session w # open_sessions w\<rparr>))"

text \<open>
  \<^verbatim>\<open>await session.close()\<close>: the call is made on the session, and the promise resolves
  or rejects with the driver's error.
\<close>

definition session_close ::
  "'db env \<Rightarrow> nat \<Rightarrow> 'db world \<Rightarrow> (error + unit) \<times> 'db world" where
  "session_close env s w =
     ((case close_fails env s of
         Some (c, m) \<Rightarrow> Inl (Neo4jError c m)
       | None \<Rightarrow> Inr ()),
      record_call (EvClose s) (w\<lparr>open_sessions := removeAll s (open_sessions w)\<rparr>))"

text \<open>
  \<^verbatim>\<open>session.executeWrite(tx => tx.run(query, params))\<close> and its reading counterpart: the
  records, or the driver's error.
\<close>

definition session_execute ::
  "'db env \<Rightarrow> nat \<Rightarrow> access \<Rightarrow> cypher \<Rightarrow> obj \<Rightarrow> 'db world \<Rightarrow> (error + obj list) \<times> 'db world" where
  "session_execute env s a q params w =
     (case execute env a q params (db w) of
        (r, d) \<Rightarrow>
          ((case r of Inl (c, m) \<Rightarrow> Inl (Neo4jError c m) | Inr records \<Rightarrow> Inr records),
           record_call (EvRun s a q params) (w\<lparr>db := d\<rparr>)))"

text \<open>\<^verbatim>\<open>jwt.sign(this.userToClaims(safeProperties), JWT_SECRET)\<close>\<close>

definition sign_claims :: "'db env \<Rightarrow> obj \<Rightarrow> 'db world \<Rightarrow> (error + string) \<times> 'db world" where
  "sign_claims env safeProperties w =
     (let claims = userToClaims safeProperties in
      ((case jwt_sign env claims (JWT_SECRET env) of
          Inl m \<Rightarrow> Inl (Error m)
        | Inr token \<Rightarrow> Inr token),
       record_call (EvSign claims (JWT_SECRET env)) w))"

section \<open>register\<close>

text \<open>
  The parameter objects of the two statements: \<^verbatim>\<open>{ email, encrypted, name }\<close> and
  \<^verbatim>\<open>{ email }\<close>.
\<close>

definition create_params :: "string \<Rightarrow> string \<Rightarrow> string \<Rightarrow> obj" where
  "create_params email encrypted name =
     prop_set (prop_set (prop_set [] ''email'' (Str email)) ''encrypted'' (Str encrypted))
       ''name'' (Str name)"

definition match_params :: "string \<Rightarrow> obj" where
  "match_params email = prop_set [] ''email'' (Str email)"

text \<open>
  The body of the \<^verbatim>\<open>try\<close> block: run the \<^verbatim>\<open>CREATE\<close> in a write transaction, take
  the first record (\<^verbatim>\<open>const [ first ] = res.records; first.get('u')\<close> throws a type error
  when there is none), drop the password from its properties and return the rest with a
  signed token.
\<close>

definition register_try ::
  "'db env \<Rightarrow> nat \<Rightarrow> string \<Rightarrow> string \<Rightarrow> string \<Rightarrow> 'db world \<Rightarrow> (error + obj) \<times> 'db world" where
  "register_try env session email encrypted name w =
     (case session_execute env session WriteAccess CreateUser
             (create_params email encrypted name) w of
        (Inl e, w1) \<Rightarrow> (Inl e, w1)
      | (Inr records, w1) \<Rightarrow>
          (case records of
             [] \<Rightarrow> (Inl (TypeError ''Cannot read properties of undefined (reading 'get')''), w1)
           | first # _ \<Rightarrow>
               (let safeProperties = prop_omit ''password'' first in
                case sign_claims env safeProperties w1 of
                  (Inl e, w2) \<Rightarrow> (Inl e, w2)
                | (Inr token, w2) \<Rightarrow> (Inr (prop_set safeProperties ''token'' (Str token)), w2))))"

text \<open>The status code the handler of \<^verbatim>\<open>register\<close> looks for.\<close>

definition constraint_failed :: string where
  "constraint_failed = ''Neo.ClientError.Schema.ConstraintValidationFailed''"

text \<open>
  The \<^verbatim>\<open>catch\<close> block: an error whose code is the store's constraint-validation status
  becomes a validation error on the field \<^verbatim>\<open>email\<close>; any other error is thrown again
  as it is.
\<close>

definition register_catch :: "string \<Rightarrow> error \<Rightarrow> error" where
  "register_catch email e =
     (if error_code e = Some constraint_failed
      then ValidationError (''An account already exists with the email address '' @ email)
             [(''email'', ''Email address already taken'')]
      else e)"

text \<open>
  \<^verbatim>\<open>register\<close>: the password is hashed before the session is opened; the session is closed
  in the \<^verbatim>\<open>finally\<close> block, after the \<^verbatim>\<open>try\<close> block or its handler. A close that
  rejects there replaces the result or the error that was on its way to the caller.
\<close>

definition register ::
  "'db env \<Rightarrow> string \<Rightarrow> string \<Rightarrow> string \<Rightarrow> 'db world \<Rightarrow> (error + obj) \<times> 'db world" where
  "register env email plainPassword name w =
     (let w1 = record_call (EvHash plainPassword (SALT_ROUNDS env)) w in
      case bcrypt_hash env plainPassword (SALT_ROUNDS env) of
        Inl m \<Rightarrow> (Inl (Error m), w1)
      | Inr encrypted \<Rightarrow>
          (case driver_session w1 of
             (session, w2) \<Rightarrow>
               (case register_try env session email encrypted name w2 of
                  (r, w3) \<Rightarrow>
                    (let pending =
                           (case r of Inl e \<Rightarrow> Inl (register_catch email e) | Inr u \<Rightarrow> Inr u)
                     in case session_close env session w3 of
                          (Inl e, w4) \<Rightarrow> (Inl e, w4)
                        | (Inr _, w4) \<Rightarrow> (pending, w4)))))"

section \<open>authenticate\<close>

text \<open>What \<^verbatim>\<open>authenticate\<close> resolves to: \<^verbatim>\<open>false\<close>, or the user's record with a token.\<close>

datatype auth_result = AuthFalse | AuthUser obj

text \<open>
  \<^verbatim>\<open>authenticate\<close>: open a session, look the user up in a read transaction, close the
  session, then compare the passwords. There is no \<^verbatim>\<open>try\<close> here: an error of the read
  leaves the function at once, and so does an error of the close.
\<close>

definition authenticate ::
  "'db env \<Rightarrow> string \<Rightarrow> string \<Rightarrow> 'db world \<Rightarrow> (error + auth_result) \<times> 'db world" where
  "authenticate env email unencryptedPassword w =
     (case driver_session w of
        (session, w1) \<Rightarrow>
          (case session_execute env session ReadAccess MatchUserByEmail
                  (match_params email) w1 of
             (Inl e, w2) \<Rightarrow> (Inl e, w2)
           | (Inr records, w2) \<Rightarrow>
               (case session_close env session w2 of
                  (Inl e, w3) \<Rightarrow> (Inl e, w3)
                | (Inr _, w3) \<Rightarrow>
                    (case records of
                       [] \<Rightarrow> (Inr AuthFalse, w3)
                     | user # _ \<Rightarrow>
                         (let encryptedPassword = prop_get user ''password'';
                              w4 = record_call
                                     (EvCompare unencryptedPassword encryptedPassword) w3
                          in case bcrypt_compare env unencryptedPassword encryptedPassword of
                               Inl m \<Rightarrow> (Inl (Error m), w4)
                             | Inr correct \<Rightarrow>
                                 if correct = False then (Inr AuthFalse, w4)
                                 else
                                   (let safeProperties = prop_omit ''password'' user in
                                    case sign_claims env safeProperties w4 of
                                      (Inl e, w5) \<Rightarrow> (Inl e, w5)
                                    | (Inr token, w5) \<Rightarrow>
                                        (Inr (AuthUser
                                               (prop_set safeProperties ''token'' (Str token))),
                                         w5)))))))"

section \<open>What the service expects of its collaborators\<close>

text \<open>
  The password toolkit accepts the hash it produced for a password: \<^verbatim>\<open>compare\<close> of a
  password with its own \<^verbatim>\<open>hash\<close> is \<^verbatim>\<open>true\<close>.
\<close>

definition bcrypt_contract :: "'db env \<Rightarrow> bool" where
  "bcrypt_contract env =
     (\<forall>p h. bcrypt_hash env p (SALT_ROUNDS env) = Inr h \<longrightarrow>
            bcrypt_compare env p (Str h) = Inr True)"

text \<open>
  The token toolkit verifies what it signed: a token signed with the secret verifies under
  the same secret, and the decoded claims read as the signed ones on every signed key (other
  keys, such as the time of issue, may be added).
\<close>

definition jwt_contract :: "'db env \<Rightarrow> bool" where
  "jwt_contract env =
     (\<forall>c t. jwt_sign env c (JWT_SECRET env) = Inr t \<longrightarrow>
        (\<exists>d. jwt_verify env t (JWT_SECRET env) = Inr d
             \<and> (\<forall>k \<in> set (map fst c). prop_get d k = prop_get c k)))"

text \<open>
  The Graph Store with its uniqueness constraint on the email of a User: a \<^verbatim>\<open>CREATE\<close>
  that succeeds returns the one node it created, carrying the parameters it was given, and a
  \<^verbatim>\<open>MATCH\<close> on that email, on the store as the \<^verbatim>\<open>CREATE\<close> left it, finds exactly that node.
\<close>

definition store_contract :: "'db env \<Rightarrow> bool" where
  "store_contract env =
     (\<forall>params d records d'.
        execute env WriteAccess CreateUser params d = (Inr records, d') \<longrightarrow>
        (\<exists>node. records = [node]
           \<and> prop_get node ''email'' = prop_get params ''email''
           \<and> prop_get node ''name'' = prop_get params ''name''
           \<and> prop_get node ''password'' = prop_get params ''encrypted''
           \<and> fst (execute env ReadAccess MatchUserByEmail
                    (prop_set [] ''email'' (prop_get params ''email'')) d') = Inr [node]))"

section \<open>Observations on the record of calls\<close>

text \<open>The calls a run added to the record.\<close>

definition new_calls :: "'db world \<Rightarrow> 'db world \<Rightarrow> event list" where
  "new_calls w w' = drop (length (calls w)) (calls w')"

text \<open>
  Scanning a record of calls: every password comparison comes after the close of session
  \<open>s\<close>. The flag says whether the close has been seen.
\<close>

fun compares_after_close :: "nat \<Rightarrow> bool \<Rightarrow> event list \<Rightarrow> bool" where
  "compares_after_close s closed [] = True"
| "compares_after_close s closed (EvClose s' # evs) =
     compares_after_close s (closed \<or> s' = s) evs"
| "compares_after_close s closed (EvCompare p h # evs) =
     (closed \<and> compares_after_close s closed evs)"
| "compares_after_close s closed (EvHash p n # evs) = compares_after_close s closed evs"
| "compares_after_close s closed (EvSession s' # evs) = compares_after_close s closed evs"
| "compares_after_close s closed (EvRun s' a q ps # evs) = compares_after_close s closed evs"
| "compares_after_close s closed (EvSign c k # evs) = compares_after_close s closed evs"

section \<open>An in-memory stand-in for the collaborators\<close>

text \<open>
  A small executable environment on which the service can be run: the store is the list of
  its User nodes, with the uniqueness constraint on the email, and its sessions close without
  error; hashing prefixes the password; a token is the three claims and the secret, separated
  by dots.
\<close>

definition mem_execute ::
  "access \<Rightarrow> cypher \<Rightarrow> obj \<Rightarrow> obj list \<Rightarrow> ((string \<times> string) + obj list) \<times> obj list" where
  "mem_execute a q params d =
     (case q of
        CreateUser \<Rightarrow>
          if filter (\<lambda>n. prop_get n ''email'' = prop_get params ''email'') d \<noteq> []
          then (Inl (constraint_failed, ''Node already exists with this email''), d)
          else
            (let node = [(''userId'', Str (''user-'' @ replicate (length d) CHR ''i'')),
                         (''email'', prop_get params ''email''),
                         (''password'', prop_get params ''encrypted''),
                         (''name'', prop_get params ''name'')]
             in (Inr [node], d @ [node]))
      | MatchUserByEmail \<Rightarrow>
          (Inr (filter (\<lambda>n. prop_get n ''email'' = prop_get params ''email'') d), d))"

definition mem_hash :: "string \<Rightarrow> int \<Rightarrow> string + string" where
  "mem_hash p rounds = Inr (''hashed:'' @ p)"

definition mem_compare :: "string \<Rightarrow> jsval \<Rightarrow> string + bool" where
  "mem_compare p h =
     (case h of Str s \<Rightarrow> Inr (s = ''hashed:'' @ p)
      | _ \<Rightarrow> Inl ''data and hash arguments required'')"

definition dotless :: "string \<Rightarrow> bool" where
  "dotless s = (CHR ''.'' \<notin> set s)"

definition mem_sign :: "obj \<Rightarrow> string \<Rightarrow> string + string" where
  "mem_sign c secret =
     (if map fst c = [''sub'', ''userId'', ''name''] then
        (case (prop_get c ''sub'', prop_get c ''userId'', prop_get c ''name'') of
           (Str a, Str b, Str n) \<Rightarrow>
             if dotless a \<and> dotless b \<and> dotless n
             then Inr (a @ ''.'' @ b @ ''.'' @ n @ ''.'' @ secret)
             else Inl ''invalid payload''
         | _ \<Rightarrow> Inl ''invalid payload'')
      else Inl ''invalid payload'')"

definition until_dot :: "string \<Rightarrow> string" where
  "until_dot s = takeWhile (\<lambda>c. c \<noteq> CHR ''.'') s"

definition after_dot :: "string \<Rightarrow> string" where
  "after_dot s = drop 1 (dropWhile (\<lambda>c. c \<noteq> CHR ''.'') s)"

definition mem_verify :: "string \<Rightarrow> string \<Rightarrow> string + obj" where
  "mem_verify t secret =
     (let a = until_dot t; r1 = after_dot t;
          b = until_dot r1; r2 = after_dot r1;
          n = until_dot r2; r3 = after_dot r2
      in if r3 = secret
         then Inr [(''sub'', Str a), (''userId'', Str b), (''name'', Str n)]
         else Inl ''invalid signature'')"

definition mem_env :: "(obj list) env" where
  "mem_env =
     \<lparr>bcrypt_hash = mem_hash, bcrypt_compare = mem_compare,
      jwt_sign = mem_sign, jwt_verify = mem_verify,
      execute = mem_execute, close_fails = (\<lambda>s. None),
      JWT_SECRET = ''secret'', SALT_ROUNDS = 10\<rparr>"

text \<open>The same environment with a store that cannot be reached.\<close>

definition offline_env :: "(obj list) env" where
  "offline_env =
     mem_env\<lparr>execute :=
       (\<lambda>a q params d. (Inl (''ServiceUnavailable'', ''Could not reach the store''), d))\<rparr>"

text \<open>The same environment with a store on which no session closes cleanly.\<close>

definition stuck_env :: "(obj list) env" where
  "stuck_env =
     mem_env\<lparr>close_fails := (\<lambda>s. Some (''ServiceUnavailable'', ''Could not close the session''))\<rparr>"

definition world0 :: "(obj list) world" where
  "world0 = \<lparr>db = [], next_session = 0, open_sessions = [], calls = []\<rparr>"

text \<open>A store that holds one user, and the record \<^verbatim>\<open>register\<close> returns for her.\<close>

definition alice_node :: obj where
  "alice_node =
     [(''userId'', Str ''user-''), (''email'', Str ''a@x.com''),
      (''password'', Str ''hashed:secret123''), (''name'', Str ''Alice'')]"

definition world1 :: "(obj list) world" where
  "world1 = \<lparr>db = [alice_node], next_session = 1, open_sessions = [], calls = []\<rparr>"

definition alice_record :: obj where
  "alice_record =
     [(''userId'', Str ''user-''), (''email'', Str ''a@x.com''), (''name'', Str ''Alice''),
      (''token'', Str ''user-.user-.Alice.secret'')]"


section \<open>Reading and writing properties\<close>

lemma prop_get_set: "prop_get (prop_set ob k v) k' = (if k' = k then v else prop_get ob k')"
  by (simp add: prop_get_def prop_set_def update_conv')

lemma prop_get_omit:
  "prop_get (prop_omit k ob) k' = (if k' = k then Undefined else prop_get ob k')"
  by (simp add: prop_get_def prop_omit_def delete_conv')

lemma has_prop_omit: "has_prop (prop_omit k ob) k' = (k' \<noteq> k \<and> has_prop ob k')"
  by (simp add: has_prop_def prop_omit_def delete_conv')

lemma has_prop_set: "has_prop (prop_set ob k v) k' = (k' = k \<or> has_prop ob k')"
  by (simp add: has_prop_def prop_set_def update_conv')

section \<open>Claims translation: the properties\<close>

text \<open>
  C7. \<^verbatim>\<open>userToClaims\<close> is a function of its argument alone, defined on every object. Its
  result has exactly the keys \<^verbatim>\<open>sub\<close>, \<^verbatim>\<open>userId\<close> and \<^verbatim>\<open>name\<close>, in this order;
  \<^verbatim>\<open>sub\<close> and \<^verbatim>\<open>userId\<close> both hold the \<^verbatim>\<open>userId\<close> of the input and \<^verbatim>\<open>name\<close>
  holds its \<^verbatim>\<open>name\<close>.
\<close>

theorem userToClaims_projection:
  "map fst (userToClaims u) = [''sub'', ''userId'', ''name'']
   \<and> prop_get (userToClaims u) ''sub'' = prop_get u ''userId''
   \<and> prop_get (userToClaims u) ''userId'' = prop_get u ''userId''
   \<and> prop_get (userToClaims u) ''name'' = prop_get u ''name''"
  by (simp add: userToClaims_def Let_def prop_set_def prop_get_def)

text \<open>
  C9. \<^verbatim>\<open>claimsToUser\<close> returns the claims it was given with \<^verbatim>\<open>userId\<close> set to their
  \<^verbatim>\<open>sub\<close>, whether or not they had a \<^verbatim>\<open>userId\<close> before; every other key reads as in the
  input.
\<close>

theorem claimsToUser_passthrough:
  "map_of (claimsToUser c) = (map_of c)(''userId'' \<mapsto> prop_get c ''sub'')"
  by (simp add: claimsToUser_def prop_set_def update_conv')

text \<open>
  C6. Translating a user to claims and back gives a record with the \<^verbatim>\<open>userId\<close> and the
  \<^verbatim>\<open>name\<close> of the user.
\<close>

theorem claims_roundtrip:
  "prop_get (claimsToUser (userToClaims u)) ''userId'' = prop_get u ''userId''
   \<and> prop_get (claimsToUser (userToClaims u)) ''name'' = prop_get u ''name''"
  by (simp add: claimsToUser_def userToClaims_def Let_def prop_get_set)

section \<open>The service in terms of its collaborators\<close>

lemma db_record_call [simp]: "db (record_call ev w) = db w"
  by (simp add: record_call_def)

lemma next_session_record_call [simp]: "next_session (record_call ev w) = next_session w"
  by (simp add: record_call_def)

lemma open_sessions_record_call [simp]: "open_sessions (record_call ev w) = open_sessions w"
  by (simp add: record_call_def)

lemma calls_record_call [simp]: "calls (record_call ev w) = calls w @ [ev]"
  by (simp add: record_call_def)

lemma db_session_close [simp]: "db (snd (session_close env s w)) = db w"
  by (simp add: session_close_def)

lemma calls_session_close [simp]:
  "calls (snd (session_close env s w)) = calls w @ [EvClose s]"
  by (simp add: session_close_def)

lemma fst_session_close:
  "fst (session_close env s w) =
     (case close_fails env s of Some (c, m) \<Rightarrow> Inl (Neo4jError c m) | None \<Rightarrow> Inr ())"
  by (simp add: session_close_def)

lemma db_driver_session [simp]: "db (snd (driver_session w)) = db w"
  by (simp add: driver_session_def)

lemma new_calls_append: "calls w' = calls w @ evs \<Longrightarrow> new_calls w w' = evs"
  by (simp add: new_calls_def)

lemma prop_get_create_params:
  "prop_get (create_params email enc name) ''email'' = Str email"
  "prop_get (create_params email enc name) ''encrypted'' = Str enc"
  "prop_get (create_params email enc name) ''name'' = Str name"
  by (simp_all add: create_params_def prop_get_set)

text \<open>The outcome of the \<^verbatim>\<open>try\<close> block, and the store it leaves.\<close>

lemma register_try_fst:
  "fst (register_try env s email enc name w) =
     (case fst (execute env WriteAccess CreateUser (create_params email enc name) (db w)) of
        Inl (c, m) \<Rightarrow> Inl (Neo4jError c m)
      | Inr [] \<Rightarrow> Inl (TypeError ''Cannot read properties of undefined (reading 'get')'')
      | Inr (first # rest) \<Rightarrow>
          (case jwt_sign env (userToClaims (prop_omit ''password'' first)) (JWT_SECRET env) of
             Inl m \<Rightarrow> Inl (Error m)
           | Inr t \<Rightarrow> Inr (prop_set (prop_omit ''password'' first) ''token'' (Str t))))"
  by (auto simp add: register_try_def session_execute_def sign_claims_def Let_def
      split: sum.splits prod.splits list.splits)

lemma register_try_db:
  "db (snd (register_try env s email enc name w)) =
     snd (execute env WriteAccess CreateUser (create_params email enc name) (db w))"
  by (auto simp add: register_try_def session_execute_def sign_claims_def Let_def
      split: sum.splits prod.splits list.splits)

lemma register_fst_try:
  "fst (register env email pw name w) =
     (case bcrypt_hash env pw (SALT_ROUNDS env) of
        Inl m \<Rightarrow> Inl (Error m)
      | Inr enc \<Rightarrow>
          (case close_fails env (next_session w) of
             Some (c, m) \<Rightarrow> Inl (Neo4jError c m)
           | None \<Rightarrow>
               (case fst (register_try env (next_session w) email enc name
                           (snd (driver_session (record_call (EvHash pw (SALT_ROUNDS env)) w)))) of
                  Inl e \<Rightarrow> Inl (register_catch email e)
                | Inr u \<Rightarrow> Inr u)))"
  by (auto simp add: register_def Let_def driver_session_def session_close_def
      split: sum.splits prod.splits option.splits)

lemma register_snd_try:
  "snd (register env email pw name w) =
     (case bcrypt_hash env pw (SALT_ROUNDS env) of
        Inl m \<Rightarrow> record_call (EvHash pw (SALT_ROUNDS env)) w
      | Inr enc \<Rightarrow>
          snd (session_close env (next_session w)
            (snd (register_try env (next_session w) email enc name
                    (snd (driver_session (record_call (EvHash pw (SALT_ROUNDS env)) w)))))))"
  by (auto simp add: register_def Let_def driver_session_def
      split: sum.splits prod.splits)

text \<open>What \<^verbatim>\<open>register\<close> returns or throws, read off the answers of its collaborators.\<close>

lemma register_fst:
  "fst (register env email pw name w) =
     (case bcrypt_hash env pw (SALT_ROUNDS env) of
        Inl m \<Rightarrow> Inl (Error m)
      | Inr enc \<Rightarrow>
          (case close_fails env (next_session w) of
             Some (c, m) \<Rightarrow> Inl (Neo4jError c m)
           | None \<Rightarrow>
               (case fst (execute env WriteAccess CreateUser (create_params email enc name)
                           (db w)) of
                  Inl (c, m) \<Rightarrow> Inl (register_catch email (Neo4jError c m))
                | Inr [] \<Rightarrow> Inl (register_catch email
                              (TypeError ''Cannot read properties of undefined (reading 'get')''))
                | Inr (first # rest) \<Rightarrow>
                    (case jwt_sign env (userToClaims (prop_omit ''password'' first))
                            (JWT_SECRET env) of
                       Inl m \<Rightarrow> Inl (register_catch email (Error m))
                     | Inr t \<Rightarrow>
                         Inr (prop_set (prop_omit ''password'' first) ''token'' (Str t))))))"
  by (auto simp add: register_fst_try register_try_fst
      split: sum.splits prod.splits list.splits option.splits)

lemma register_db:
  "db (snd (register env email pw name w)) =
     (case bcrypt_hash env pw (SALT_ROUNDS env) of
        Inl m \<Rightarrow> db w
      | Inr enc \<Rightarrow>
          snd (execute env WriteAccess CreateUser (create_params email enc name) (db w)))"
  by (simp add: register_snd_try register_try_db split: sum.splits)

lemma register_calls:
  "calls (snd (register env email pw name w)) =
     calls w @ EvHash pw (SALT_ROUNDS env) #
       (case bcrypt_hash env pw (SALT_ROUNDS env) of
          Inl m \<Rightarrow> []
        | Inr enc \<Rightarrow>
            EvSession (next_session w) #
            EvRun (next_session w) WriteAccess CreateUser (create_params email enc name) #
            (case fst (execute env WriteAccess CreateUser (create_params email enc name)
                        (db w)) of
               Inl f \<Rightarrow> []
             | Inr [] \<Rightarrow> []
             | Inr (first # rest) \<Rightarrow>
                 [EvSign (userToClaims (prop_omit ''password'' first)) (JWT_SECRET env)])
            @ [EvClose (next_session w)])"
  by (auto simp add: register_def register_try_def session_execute_def sign_claims_def Let_def
        driver_session_def session_close_def
      split: sum.splits prod.splits list.splits option.splits)

text \<open>
  \<^verbatim>\<open>register\<close> calls \<^verbatim>\<open>close\<close> on its session on every path that opened one.
\<close>

lemma register_open_sessions:
  "open_sessions (snd (register env email pw name w)) =
     (case bcrypt_hash env pw (SALT_ROUNDS env) of
        Inl m \<Rightarrow> open_sessions w
      | Inr enc \<Rightarrow> removeAll (next_session w) (open_sessions w))"
  by (auto simp add: register_def register_try_def session_execute_def sign_claims_def Let_def
        driver_session_def session_close_def
      split: sum.splits prod.splits list.splits option.splits)

text \<open>The same for \<^verbatim>\<open>authenticate\<close>.\<close>

lemma authenticate_fst:
  "fst (authenticate env email pw w) =
     (case fst (execute env ReadAccess MatchUserByEmail (match_params email) (db w)) of
        Inl (c, m) \<Rightarrow> Inl (Neo4jError c m)
      | Inr records \<Rightarrow>
          (case close_fails env (next_session w) of
             Some (c, m) \<Rightarrow> Inl (Neo4jError c m)
           | None \<Rightarrow>
               (case records of
                  [] \<Rightarrow> Inr AuthFalse
                | user # rest \<Rightarrow>
                    (case bcrypt_compare env pw (prop_get user ''password'') of
                       Inl m \<Rightarrow> Inl (Error m)
                     | Inr correct \<Rightarrow>
                         if correct then
                           (case jwt_sign env (userToClaims (prop_omit ''password'' user))
                                   (JWT_SECRET env) of
                              Inl m \<Rightarrow> Inl (Error m)
                            | Inr t \<Rightarrow>
                                Inr (AuthUser
                                      (prop_set (prop_omit ''password'' user) ''token'' (Str t))))
                         else Inr AuthFalse))))"
  by (auto simp add: authenticate_def session_execute_def sign_claims_def Let_def
        driver_session_def session_close_def
      split: sum.splits prod.splits list.splits option.splits)

lemma authenticate_calls:
  "calls (snd (authenticate env email pw w)) =
     calls w @ EvSession (next_session w) #
       EvRun (next_session w) ReadAccess MatchUserByEmail (match_params email) #
       (case fst (execute env ReadAccess MatchUserByEmail (match_params email) (db w)) of
          Inl f \<Rightarrow> []
        | Inr records \<Rightarrow>
            EvClose (next_session w) #
            (case close_fails env (next_session w) of
               Some f \<Rightarrow> []
             | None \<Rightarrow>
                 (case records of
                    [] \<Rightarrow> []
                  | user # rest \<Rightarrow>
                      EvCompare pw (prop_get user ''password'') #
                      (case bcrypt_compare env pw (prop_get user ''password'') of
                         Inl m \<Rightarrow> []
                       | Inr correct \<Rightarrow>
                           if correct
                           then [EvSign (userToClaims (prop_omit ''password'' user))
                                   (JWT_SECRET env)]
                           else []))))"
  by (auto simp add: authenticate_def session_execute_def sign_claims_def Let_def
        driver_session_def session_close_def
      split: sum.splits prod.splits list.splits option.splits)

text \<open>
  \<^verbatim>\<open>authenticate\<close> calls \<^verbatim>\<open>close\<close> on its session when the read returns, and only
  then: a read that fails leaves the session among the open ones.
\<close>

lemma authenticate_open_sessions:
  "open_sessions (snd (authenticate env email pw w)) =
     (case fst (execute env ReadAccess MatchUserByEmail (match_params email) (db w)) of
        Inl f \<Rightarrow> next_session w # open_sessions w
      | Inr records \<Rightarrow> removeAll (next_session w) (open_sessions w))"
  by (auto simp add: authenticate_def session_execute_def sign_claims_def Let_def
        driver_session_def session_close_def
      split: sum.splits prod.splits list.splits option.splits)

section \<open>The in-memory collaborators keep the contracts\<close>

lemma mem_env_fields [simp]:
  "bcrypt_hash mem_env = mem_hash" "bcrypt_compare mem_env = mem_compare"
  "jwt_sign mem_env = mem_sign" "jwt_verify mem_env = mem_verify"
  "execute mem_env = mem_execute" "close_fails mem_env = (\<lambda>s. None)"
  "JWT_SECRET mem_env = ''secret''" "SALT_ROUNDS mem_env = 10"
  by (simp_all add: mem_env_def)

lemma stuck_env_fields [simp]:
  "bcrypt_hash stuck_env = mem_hash" "bcrypt_compare stuck_env = mem_compare"
  "jwt_sign stuck_env = mem_sign" "jwt_verify stuck_env = mem_verify"
  "execute stuck_env = mem_execute"
  "close_fails stuck_env = (\<lambda>s. Some (''ServiceUnavailable'', ''Could not close the session''))"
  "JWT_SECRET stuck_env = ''secret''" "SALT_ROUNDS stuck_env = 10"
  by (simp_all add: stuck_env_def mem_env_def)

lemma mem_bcrypt_contract: "bcrypt_contract mem_env"
  by (auto simp add: bcrypt_contract_def mem_hash_def mem_compare_def)

lemma mem_store_contract: "store_contract mem_env"
  by (auto simp add: store_contract_def mem_execute_def Let_def prop_get_set
        prop_get_def [of "_ # _"] split: if_splits)

lemma until_dot_append: "dotless a \<Longrightarrow> until_dot (a @ CHR ''.'' # r) = a"
  by (induction a) (auto simp add: until_dot_def dotless_def)

lemma after_dot_append: "dotless a \<Longrightarrow> after_dot (a @ CHR ''.'' # r) = r"
  by (induction a) (auto simp add: after_dot_def dotless_def)

lemma mem_verify_sign:
  assumes "dotless a" "dotless b" "dotless n"
  shows "mem_verify (a @ ''.'' @ b @ ''.'' @ n @ ''.'' @ secret) secret =
           Inr [(''sub'', Str a), (''userId'', Str b), (''name'', Str n)]"
  using assms by (simp add: mem_verify_def Let_def until_dot_append after_dot_append)

lemma mem_jwt_contract: "jwt_contract mem_env"
  unfolding jwt_contract_def
proof (intro allI impI)
  fix c t
  assume s: "jwt_sign mem_env c (JWT_SECRET mem_env) = Inr t"
  then have keys: "map fst c = [''sub'', ''userId'', ''name'']"
    by (simp add: mem_sign_def split: if_splits)
  from s obtain a b n where
    vals: "prop_get c ''sub'' = Str a" "prop_get c ''userId'' = Str b"
      "prop_get c ''name'' = Str n" and
    dl: "dotless a" "dotless b" "dotless n" and
    t: "t = a @ ''.'' @ b @ ''.'' @ n @ ''.'' @ ''secret''"
    by (auto simp add: mem_sign_def split: if_splits jsval.splits)
  have "jwt_verify mem_env t (JWT_SECRET mem_env)
          = Inr [(''sub'', Str a), (''userId'', Str b), (''name'', Str n)]"
    using mem_verify_sign [OF dl, of "''secret''"] by (simp add: t)
  moreover have "\<forall>k \<in> set (map fst c).
      prop_get [(''sub'', Str a), (''userId'', Str b), (''name'', Str n)] k = prop_get c k"
    by (simp add: keys vals) (simp add: prop_get_def)
  ultimately show "\<exists>d. jwt_verify mem_env t (JWT_SECRET mem_env) = Inr d
      \<and> (\<forall>k \<in> set (map fst c). prop_get d k = prop_get c k)"
    by blast
qed

section \<open>Registration and authentication: the properties\<close>

text \<open>
  C1. On a store that keeps the emails of its users unique and closes the session of the
  lookup without error, and with a password toolkit that accepts its own hashes: when
  \<^verbatim>\<open>register(email, password, name)\<close> succeeds, the record it returns carries the email and
  the name it was given, and \<^verbatim>\<open>authenticate(email, password)\<close> on the store as
  \<^verbatim>\<open>register\<close> left it returns a record with the same \<^verbatim>\<open>userId\<close>, that email and that
  name, and without a \<^verbatim>\<open>password\<close> key.
\<close>

theorem register_then_authenticate:
  assumes store: "store_contract env"
    and bcrypt: "bcrypt_contract env"
    and closes: "close_fails env (next_session (snd (register env email pw name w))) = None"
    and reg: "fst (register env email pw name w) = Inr r"
  shows "prop_get r ''email'' = Str email \<and> prop_get r ''name'' = Str name
    \<and> \<not> has_prop r ''password''
    \<and> (\<exists>r'. fst (authenticate env email pw (snd (register env email pw name w)))
               = Inr (AuthUser r')
          \<and> prop_get r' ''userId'' = prop_get r ''userId''
          \<and> prop_get r' ''email'' = Str email
          \<and> prop_get r' ''name'' = Str name
          \<and> \<not> has_prop r' ''password'')"
proof -
  from reg obtain enc first rest t where
    h: "bcrypt_hash env pw (SALT_ROUNDS env) = Inr enc" and
    ex: "fst (execute env WriteAccess CreateUser (create_params email enc name) (db w))
           = Inr (first # rest)" and
    sg: "jwt_sign env (userToClaims (prop_omit ''password'' first)) (JWT_SECRET env) = Inr t" and
    r: "r = prop_set (prop_omit ''password'' first) ''token'' (Str t)"
    by (auto simp add: register_fst split: sum.splits list.splits prod.splits option.splits)
  define d' where
    "d' = snd (execute env WriteAccess CreateUser (create_params email enc name) (db w))"
  have run: "execute env WriteAccess CreateUser (create_params email enc name) (db w)
               = (Inr (first # rest), d')"
    using ex by (simp add: d'_def prod_eq_iff)
  from store run obtain node where
    one: "first # rest = [node]" and
    ne: "prop_get node ''email'' = prop_get (create_params email enc name) ''email''" and
    nn: "prop_get node ''name'' = prop_get (create_params email enc name) ''name''" and
    np: "prop_get node ''password'' = prop_get (create_params email enc name) ''encrypted''" and
    found: "fst (execute env ReadAccess MatchUserByEmail
                  (prop_set [] ''email'' (prop_get (create_params email enc name) ''email'')) d')
              = Inr [node]"
    unfolding store_contract_def by blast
  from one have first: "first = node" by simp
  have dbw: "db (snd (register env email pw name w)) = d'"
    by (simp add: register_db h d'_def)
  have cmp: "bcrypt_compare env pw (prop_get node ''password'') = Inr True"
    using bcrypt h by (simp add: bcrypt_contract_def np prop_get_create_params)
  have auth: "fst (authenticate env email pw (snd (register env email pw name w)))
                = Inr (AuthUser r)"
    using found sg closes
    by (simp add: authenticate_fst dbw match_params_def prop_get_create_params cmp r first)
  have "prop_get r ''email'' = Str email" "prop_get r ''name'' = Str name"
    "\<not> has_prop r ''password''"
    by (simp_all add: r first prop_get_set prop_get_omit has_prop_set has_prop_omit ne nn
        prop_get_create_params)
  with auth show ?thesis by simp
qed

theorem register_then_authenticate_witness:
  "store_contract mem_env \<and> bcrypt_contract mem_env
   \<and> close_fails mem_env
       (next_session (snd (register mem_env ''a@x.com'' ''secret123'' ''Alice'' world0))) = None
   \<and> fst (register mem_env ''a@x.com'' ''secret123'' ''Alice'' world0) = Inr alice_record
   \<and> prop_get alice_record ''email'' = Str ''a@x.com''
   \<and> prop_get alice_record ''name'' = Str ''Alice''
   \<and> \<not> has_prop alice_record ''password''
   \<and> (\<exists>r'. fst (authenticate mem_env ''a@x.com'' ''secret123''
                  (snd (register mem_env ''a@x.com'' ''secret123'' ''Alice'' world0)))
               = Inr (AuthUser r')
          \<and> prop_get r' ''userId'' = prop_get alice_record ''userId''
          \<and> prop_get r' ''email'' = Str ''a@x.com''
          \<and> prop_get r' ''name'' = Str ''Alice''
          \<and> \<not> has_prop r' ''password'')"
proof -
  have reg: "fst (register mem_env ''a@x.com'' ''secret123'' ''Alice'' world0) = Inr alice_record"
    by (simp add: register_fst mem_hash_def mem_execute_def world0_def create_params_def
        prop_set_def prop_get_def prop_omit_def userToClaims_def mem_sign_def dotless_def
        alice_record_def Let_def)
  have closes: "close_fails mem_env
      (next_session (snd (register mem_env ''a@x.com'' ''secret123'' ''Alice'' world0))) = None"
    by simp
  from register_then_authenticate [OF mem_store_contract mem_bcrypt_contract closes reg]
  show ?thesis using reg mem_store_contract mem_bcrypt_contract by simp
qed

text \<open>
  C2. \<^verbatim>\<open>register\<close> fails with a validation error exactly when the write of the new user
  fails with the store's constraint-validation status and the close of the session in the
  \<^verbatim>\<open>finally\<close> block resolves; the error then carries the summary naming the email and the
  field map \<^verbatim>\<open>{ email: 'Email address already taken' }\<close>. When the close resolves, every
  other failure reaches the caller as it was raised: an error of the write with another
  status, the type error on an answer without records, the error of the signing; so does the
  error of the hashing, which comes before any session. When the close rejects, its error is
  what \<^verbatim>\<open>register\<close> throws, whatever was on its way to the caller.
\<close>

theorem register_validation_error:
  "((\<exists>m f. fst (register env email pw name w) = Inl (ValidationError m f))
      \<longleftrightarrow> (\<exists>enc msg. bcrypt_hash env pw (SALT_ROUNDS env) = Inr enc
            \<and> fst (execute env WriteAccess CreateUser (create_params email enc name) (db w))
                = Inl (constraint_failed, msg)
            \<and> close_fails env (next_session w) = None))
   \<and> (\<forall>m f. fst (register env email pw name w) = Inl (ValidationError m f) \<longrightarrow>
         m = ''An account already exists with the email address '' @ email
         \<and> f = [(''email'', ''Email address already taken'')])
   \<and> (\<forall>m. bcrypt_hash env pw (SALT_ROUNDS env) = Inl m \<longrightarrow>
         fst (register env email pw name w) = Inl (Error m))
   \<and> (\<forall>enc c m. bcrypt_hash env pw (SALT_ROUNDS env) = Inr enc
         \<and> fst (execute env WriteAccess CreateUser (create_params email enc name) (db w))
             = Inl (c, m)
         \<and> c \<noteq> constraint_failed
         \<and> close_fails env (next_session w) = None \<longrightarrow>
         fst (register env email pw name w) = Inl (Neo4jError c m))
   \<and> (\<forall>enc. bcrypt_hash env pw (SALT_ROUNDS env) = Inr enc
         \<and> fst (execute env WriteAccess CreateUser (create_params email enc name) (db w))
             = Inr []
         \<and> close_fails env (next_session w) = None \<longrightarrow>
         fst (register env email pw name w)
           = Inl (TypeError ''Cannot read properties of undefined (reading 'get')''))
   \<and> (\<forall>enc first rest m. bcrypt_hash env pw (SALT_ROUNDS env) = Inr enc
         \<and> fst (execute env WriteAccess CreateUser (create_params email enc name) (db w))
             = Inr (first # rest)
         \<and> jwt_sign env (userToClaims (prop_omit ''password'' first)) (JWT_SECRET env) = Inl m
         \<and> close_fails env (next_session w) = None
         \<longrightarrow> fst (register env email pw name w) = Inl (Error m))
   \<and> (\<forall>enc c m. bcrypt_hash env pw (SALT_ROUNDS env) = Inr enc
         \<and> close_fails env (next_session w) = Some (c, m) \<longrightarrow>
         fst (register env email pw name w) = Inl (Neo4jError c m))"
  by (auto simp add: register_fst register_catch_def
      split: sum.splits list.splits prod.splits if_splits option.splits)

theorem register_validation_error_witness:
  "(\<exists>enc msg. bcrypt_hash mem_env ''secret123'' (SALT_ROUNDS mem_env) = Inr enc
      \<and> fst (execute mem_env WriteAccess CreateUser
               (create_params ''a@x.com'' enc ''Alice'') (db world1))
          = Inl (constraint_failed, msg)
      \<and> close_fails mem_env (next_session world1) = None)
   \<and> fst (register mem_env ''a@x.com'' ''secret123'' ''Alice'' world1)
       = Inl (ValidationError ''An account already exists with the email address a@x.com''
               [(''email'', ''Email address already taken'')])"
proof -
  have taken: "\<exists>enc msg. bcrypt_hash mem_env ''secret123'' (SALT_ROUNDS mem_env) = Inr enc
      \<and> fst (execute mem_env WriteAccess CreateUser
               (create_params ''a@x.com'' enc ''Alice'') (db world1))
          = Inl (constraint_failed, msg)
      \<and> close_fails mem_env (next_session world1) = None"
    by (simp add: mem_hash_def mem_execute_def world1_def alice_node_def create_params_def
        prop_set_def prop_get_def)
  note inst = register_validation_error
    [of mem_env "''a@x.com''" "''secret123''" "''Alice''" world1]
  from inst taken obtain m f where
    e: "fst (register mem_env ''a@x.com'' ''secret123'' ''Alice'' world1)
          = Inl (ValidationError m f)"
    by blast
  with inst have "m = ''An account already exists with the email address '' @ ''a@x.com''"
    and "f = [(''email'', ''Email address already taken'')]"
    by blast+
  with e taken show ?thesis by simp
qed

text \<open>
  C2 does not hold without the proviso on the close: on a store whose sessions do not close
  cleanly, registering an email that is taken makes the write fail with the
  constraint-validation status, yet \<^verbatim>\<open>register\<close> throws the error of the close and no
  validation error.
\<close>

theorem register_validation_error_counterexample:
  "bcrypt_hash stuck_env ''secret123'' (SALT_ROUNDS stuck_env) = Inr ''hashed:secret123''
   \<and> fst (execute stuck_env WriteAccess CreateUser
            (create_params ''a@x.com'' ''hashed:secret123'' ''Alice'') (db world1))
       = Inl (constraint_failed, ''Node already exists with this email'')
   \<and> fst (register stuck_env ''a@x.com'' ''secret123'' ''Alice'' world1)
       = Inl (Neo4jError ''ServiceUnavailable'' ''Could not close the session'')"
  by (simp add: register_fst mem_hash_def mem_execute_def world1_def alice_node_def
      create_params_def prop_set_def prop_get_def)

text \<open>
  C3. When the close of the session that follows the lookup resolves, \<^verbatim>\<open>authenticate\<close>
  returns \<^verbatim>\<open>false\<close> when the lookup finds no user with the email, and returns the same
  \<^verbatim>\<open>false\<close> when the comparison of the password with the stored hash answers
  \<^verbatim>\<open>false\<close>; in neither case does it throw. When the close rejects, \<^verbatim>\<open>authenticate\<close>
  throws the error of the close, whatever the lookup found.
\<close>

theorem authenticate_false:
  "(fst (execute env ReadAccess MatchUserByEmail (match_params email) (db w)) = Inr []
       \<and> close_fails env (next_session w) = None
      \<longrightarrow> fst (authenticate env email pw w) = Inr AuthFalse)
   \<and> (fst (execute env ReadAccess MatchUserByEmail (match_params email) (db w))
         = Inr (user # rest)
       \<and> close_fails env (next_session w) = None
       \<and> bcrypt_compare env pw (prop_get user ''password'') = Inr False
      \<longrightarrow> fst (authenticate env email pw w) = Inr AuthFalse)
   \<and> (fst (execute env ReadAccess MatchUserByEmail (match_params email) (db w)) = Inr records
       \<and> close_fails env (next_session w) = Some (c, m)
      \<longrightarrow> fst (authenticate env email pw w) = Inl (Neo4jError c m))"
  by (simp add: authenticate_fst)

theorem authenticate_false_witness:
  "fst (execute mem_env ReadAccess MatchUserByEmail (match_params ''nouser@x.com'') (db world1))
     = Inr []
   \<and> close_fails mem_env (next_session world1) = None
   \<and> fst (authenticate mem_env ''nouser@x.com'' ''x'' world1) = Inr AuthFalse
   \<and> fst (execute mem_env ReadAccess MatchUserByEmail (match_params ''a@x.com'') (db world1))
       = Inr [alice_node]
   \<and> bcrypt_compare mem_env ''wrong'' (prop_get alice_node ''password'') = Inr False
   \<and> fst (authenticate mem_env ''a@x.com'' ''wrong'' world1) = Inr AuthFalse"
proof -
  have none: "fst (execute mem_env ReadAccess MatchUserByEmail (match_params ''nouser@x.com'')
                     (db world1)) = Inr []"
    by (simp add: mem_execute_def world1_def alice_node_def match_params_def
        prop_set_def prop_get_def)
  have one: "fst (execute mem_env ReadAccess MatchUserByEmail (match_params ''a@x.com'')
                    (db world1)) = Inr (alice_node # [])"
    by (simp add: mem_execute_def world1_def alice_node_def match_params_def
        prop_set_def prop_get_def)
  have closes: "close_fails mem_env (next_session world1) = None"
    by simp
  have bad: "bcrypt_compare mem_env ''wrong'' (prop_get alice_node ''password'') = Inr False"
    by (simp add: mem_compare_def alice_node_def prop_get_def)
  from authenticate_false [of mem_env "''nouser@x.com''" world1 "''x''"] none closes
  have a: "fst (authenticate mem_env ''nouser@x.com'' ''x'' world1) = Inr AuthFalse"
    by blast
  from authenticate_false [of mem_env "''a@x.com''" world1 "''wrong''" alice_node "[]"]
    one closes bad
  have b: "fst (authenticate mem_env ''a@x.com'' ''wrong'' world1) = Inr AuthFalse"
    by blast
  from none one closes bad a b show ?thesis by simp
qed

text \<open>
  C3 does not hold without the proviso on the close: on a store whose sessions do not close
  cleanly, the lookup of an email nobody registered finds no user, yet \<^verbatim>\<open>authenticate\<close>
  throws the error of the close and does not return \<^verbatim>\<open>false\<close>.
\<close>

theorem authenticate_false_counterexample:
  "fst (execute stuck_env ReadAccess MatchUserByEmail (match_params ''nouser@x.com'')
          (db world1)) = Inr []
   \<and> fst (authenticate stuck_env ''nouser@x.com'' ''x'' world1)
       = Inl (Neo4jError ''ServiceUnavailable'' ''Could not close the session'')
   \<and> fst (authenticate stuck_env ''nouser@x.com'' ''x'' world1) \<noteq> Inr AuthFalse"
  by (simp add: authenticate_fst mem_execute_def world1_def alice_node_def match_params_def
      prop_set_def prop_get_def)

text \<open>
  C4. Both operations are to close their session on every exit path. \<^verbatim>\<open>register\<close>
  does (\<open>register_open_sessions\<close>); \<^verbatim>\<open>authenticate\<close> does not: when the read
  fails, the error leaves the function before \<^verbatim>\<open>session.close()\<close> is reached. On
  a store that cannot be reached, \<^verbatim>\<open>authenticate('a@x.com', 'secret123')\<close> throws the
  store's error, its session 0 stays open and no close of it was ever called.
\<close>

theorem authenticate_read_error_leaves_session_open:
  "fst (authenticate offline_env ''a@x.com'' ''secret123'' world0)
     = Inl (Neo4jError ''ServiceUnavailable'' ''Could not reach the store'')
   \<and> open_sessions (snd (authenticate offline_env ''a@x.com'' ''secret123'' world0)) = [0]
   \<and> calls (snd (authenticate offline_env ''a@x.com'' ''secret123'' world0))
       = [EvSession 0, EvRun 0 ReadAccess MatchUserByEmail [(''email'', Str ''a@x.com'')]]"
  by (simp add: authenticate_fst authenticate_open_sessions authenticate_calls
      offline_env_def mem_env_def world0_def match_params_def prop_set_def)

text \<open>
  C5. In every run of \<^verbatim>\<open>authenticate\<close>, a comparison of passwords comes only after the
  close of the session the run opened. When the lookup returns, the first three calls of
  the run are: open the session, run the read, close the session; when it finds a user and
  the close resolves, the fourth is the comparison of the password.
\<close>

theorem compare_after_session_close:
  "compares_after_close (next_session w) False
     (new_calls w (snd (authenticate env email pw w)))
   \<and> (fst (execute env ReadAccess MatchUserByEmail (match_params email) (db w))
        = Inr records \<longrightarrow>
      take 3 (new_calls w (snd (authenticate env email pw w))) =
        [EvSession (next_session w),
         EvRun (next_session w) ReadAccess MatchUserByEmail (match_params email),
         EvClose (next_session w)])
   \<and> (fst (execute env ReadAccess MatchUserByEmail (match_params email) (db w))
        = Inr (user # rest)
       \<and> close_fails env (next_session w) = None \<longrightarrow>
      take 4 (new_calls w (snd (authenticate env email pw w))) =
        [EvSession (next_session w),
         EvRun (next_session w) ReadAccess MatchUserByEmail (match_params email),
         EvClose (next_session w),
         EvCompare pw (prop_get user ''password'')])"
  by (simp add: new_calls_append [OF authenticate_calls]
      split: sum.splits list.splits option.splits)

theorem compare_after_session_close_witness:
  "fst (execute mem_env ReadAccess MatchUserByEmail (match_params ''a@x.com'') (db world1))
     = Inr [alice_node]
   \<and> close_fails mem_env (next_session world1) = None
   \<and> compares_after_close 1 False
       (new_calls world1 (snd (authenticate mem_env ''a@x.com'' ''secret123'' world1)))
   \<and> take 4 (new_calls world1 (snd (authenticate mem_env ''a@x.com'' ''secret123'' world1))) =
        [EvSession 1,
         EvRun 1 ReadAccess MatchUserByEmail [(''email'', Str ''a@x.com'')],
         EvClose 1,
         EvCompare ''secret123'' (Str ''hashed:secret123'')]"
proof -
  have one: "fst (execute mem_env ReadAccess MatchUserByEmail (match_params ''a@x.com'')
                    (db world1)) = Inr (alice_node # [])"
    by (simp add: mem_execute_def world1_def alice_node_def match_params_def
        prop_set_def prop_get_def)
  have closes: "close_fails mem_env (next_session world1) = None"
    by simp
  have s: "next_session world1 = 1"
    and p: "prop_get alice_node ''password'' = Str ''hashed:secret123''"
    and m: "match_params ''a@x.com'' = [(''email'', Str ''a@x.com'')]"
    by (simp_all add: world1_def alice_node_def prop_get_def match_params_def prop_set_def)
  from compare_after_session_close
    [of world1 mem_env "''a@x.com''" "''secret123''" "[alice_node]" alice_node "[]"] one closes
  show ?thesis by (simp add: s p m)
qed

text \<open>
  C8. With a token toolkit that verifies what it signed: the record returned by a successful
  \<^verbatim>\<open>register\<close> or \<^verbatim>\<open>authenticate\<close> holds a token that verifies under the signing secret,
  and the decoded claims have \<^verbatim>\<open>sub\<close> and \<^verbatim>\<open>userId\<close> equal to the \<^verbatim>\<open>userId\<close> of the
  returned user and \<^verbatim>\<open>name\<close> equal to its \<^verbatim>\<open>name\<close>.
\<close>

theorem token_decodes_to_user:
  assumes jwt: "jwt_contract env"
    and ok: "fst (register env email pw name w) = Inr r
             \<or> fst (authenticate env email pw w) = Inr (AuthUser r)"
  shows "\<exists>t d. prop_get r ''token'' = Str t
           \<and> jwt_verify env t (JWT_SECRET env) = Inr d
           \<and> prop_get d ''sub'' = prop_get r ''userId''
           \<and> prop_get d ''userId'' = prop_get r ''userId''
           \<and> prop_get d ''name'' = prop_get r ''name''"
proof -
  from ok obtain node t where
    sg: "jwt_sign env (userToClaims (prop_omit ''password'' node)) (JWT_SECRET env) = Inr t" and
    r: "r = prop_set (prop_omit ''password'' node) ''token'' (Str t)"
    by (auto simp add: register_fst authenticate_fst
        split: sum.splits list.splits prod.splits if_splits option.splits)
  let ?c = "userToClaims (prop_omit ''password'' node)"
  from jwt sg obtain d where
    v: "jwt_verify env t (JWT_SECRET env) = Inr d" and
    same: "\<forall>k \<in> set (map fst ?c). prop_get d k = prop_get ?c k"
    unfolding jwt_contract_def by blast
  have keys: "map fst ?c = [''sub'', ''userId'', ''name'']"
    by (simp add: userToClaims_def Let_def prop_set_def)
  have vals: "prop_get ?c ''sub'' = prop_get (prop_omit ''password'' node) ''userId''"
    "prop_get ?c ''userId'' = prop_get (prop_omit ''password'' node) ''userId''"
    "prop_get ?c ''name'' = prop_get (prop_omit ''password'' node) ''name''"
    by (simp_all add: userToClaims_def Let_def prop_get_set)
  from same keys have
    "prop_get d ''sub'' = prop_get ?c ''sub''"
    "prop_get d ''userId'' = prop_get ?c ''userId''"
    "prop_get d ''name'' = prop_get ?c ''name''"
    by simp_all
  with vals v show ?thesis
    by (simp add: r prop_get_set)
qed

theorem token_decodes_to_user_witness:
  "jwt_contract mem_env
   \<and> fst (register mem_env ''a@x.com'' ''secret123'' ''Alice'' world0) = Inr alice_record
   \<and> fst (authenticate mem_env ''a@x.com'' ''secret123'' world1) = Inr (AuthUser alice_record)
   \<and> (\<exists>d. jwt_verify mem_env ''user-.user-.Alice.secret'' (JWT_SECRET mem_env) = Inr d
          \<and> prop_get d ''sub'' = Str ''user-''
          \<and> prop_get d ''userId'' = Str ''user-''
          \<and> prop_get d ''name'' = Str ''Alice'')"
proof -
  have reg: "fst (register mem_env ''a@x.com'' ''secret123'' ''Alice'' world0) = Inr alice_record"
    by (simp add: register_fst mem_hash_def mem_execute_def world0_def create_params_def
        prop_set_def prop_get_def prop_omit_def userToClaims_def mem_sign_def dotless_def
        alice_record_def Let_def)
  have auth: "fst (authenticate mem_env ''a@x.com'' ''secret123'' world1)
                = Inr (AuthUser alice_record)"
    by (simp add: authenticate_fst mem_compare_def mem_execute_def world1_def alice_node_def
        match_params_def prop_set_def prop_get_def prop_omit_def userToClaims_def mem_sign_def
        dotless_def alice_record_def Let_def)
  have rec: "prop_get alice_record ''token'' = Str ''user-.user-.Alice.secret''"
    "prop_get alice_record ''userId'' = Str ''user-''"
    "prop_get alice_record ''name'' = Str ''Alice''"
    by (simp_all add: alice_record_def prop_get_def)
  from token_decodes_to_user [OF mem_jwt_contract disjI1, OF reg]
  show ?thesis using reg auth mem_jwt_contract by (auto simp add: rec)
qed

text \<open>
  C10. Neither operation looks at its string arguments, empty or not. \<^verbatim>\<open>register\<close> hands
  the password as it is to the hashing, then the email, the hash and the name as they are to
  the \<^verbatim>\<open>CREATE\<close>; when it fails, the hashing, the write, the signing or the close of the
  session failed, or the write answered without a record. \<^verbatim>\<open>authenticate\<close> hands the
  email as it is to the \<^verbatim>\<open>MATCH\<close> and, once the session has closed, the password as it is
  to the comparison; when it fails, the read, the close, the comparison or the signing
  failed.
\<close>

theorem inputs_not_validated:
  "take 1 (new_calls w (snd (register env email pw name w))) = [EvHash pw (SALT_ROUNDS env)]
   \<and> (\<forall>enc. bcrypt_hash env pw (SALT_ROUNDS env) = Inr enc \<longrightarrow>
         take 3 (new_calls w (snd (register env email pw name w))) =
           [EvHash pw (SALT_ROUNDS env), EvSession (next_session w),
            EvRun (next_session w) WriteAccess CreateUser
              [(''email'', Str email), (''encrypted'', Str enc), (''name'', Str name)]])
   \<and> (\<forall>e. fst (register env email pw name w) = Inl e \<longrightarrow>
         (\<exists>m. bcrypt_hash env pw (SALT_ROUNDS env) = Inl m)
         \<or> (\<exists>enc. bcrypt_hash env pw (SALT_ROUNDS env) = Inr enc
              \<and> ((\<exists>f. close_fails env (next_session w) = Some f)
                 \<or> (\<exists>f. fst (execute env WriteAccess CreateUser
                            (create_params email enc name) (db w)) = Inl f)
                 \<or> fst (execute env WriteAccess CreateUser
                            (create_params email enc name) (db w)) = Inr []
                 \<or> (\<exists>first rest m.
                       fst (execute env WriteAccess CreateUser
                            (create_params email enc name) (db w)) = Inr (first # rest)
                       \<and> jwt_sign env (userToClaims (prop_omit ''password'' first))
                            (JWT_SECRET env) = Inl m))))
   \<and> take 2 (new_calls w' (snd (authenticate env email pw w'))) =
       [EvSession (next_session w'),
        EvRun (next_session w') ReadAccess MatchUserByEmail [(''email'', Str email)]]
   \<and> (\<forall>user rest.
         fst (execute env ReadAccess MatchUserByEmail (match_params email) (db w'))
           = Inr (user # rest)
         \<and> close_fails env (next_session w') = None \<longrightarrow>
         new_calls w' (snd (authenticate env email pw w')) ! 3
           = EvCompare pw (prop_get user ''password''))
   \<and> (\<forall>e. fst (authenticate env email pw w') = Inl e \<longrightarrow>
         (\<exists>f. fst (execute env ReadAccess MatchUserByEmail (match_params email) (db w')) = Inl f)
         \<or> (\<exists>f. close_fails env (next_session w') = Some f)
         \<or> (\<exists>user rest.
               fst (execute env ReadAccess MatchUserByEmail (match_params email) (db w'))
                 = Inr (user # rest)
               \<and> ((\<exists>m. bcrypt_compare env pw (prop_get user ''password'') = Inl m)
                  \<or> (\<exists>m. jwt_sign env (userToClaims (prop_omit ''password'' user))
                            (JWT_SECRET env) = Inl m))))"
proof (intro conjI allI impI)
  show "take 1 (new_calls w (snd (register env email pw name w))) = [EvHash pw (SALT_ROUNDS env)]"
    by (simp add: new_calls_append [OF register_calls])
next
  fix enc
  assume "bcrypt_hash env pw (SALT_ROUNDS env) = Inr enc"
  then show "take 3 (new_calls w (snd (register env email pw name w))) =
           [EvHash pw (SALT_ROUNDS env), EvSession (next_session w),
            EvRun (next_session w) WriteAccess CreateUser
              [(''email'', Str email), (''encrypted'', Str enc), (''name'', Str name)]]"
    by (simp add: new_calls_append [OF register_calls] create_params_def prop_set_def)
next
  fix e
  assume "fst (register env email pw name w) = Inl e"
  then show "(\<exists>m. bcrypt_hash env pw (SALT_ROUNDS env) = Inl m)
         \<or> (\<exists>enc. bcrypt_hash env pw (SALT_ROUNDS env) = Inr enc
              \<and> ((\<exists>f. close_fails env (next_session w) = Some f)
                 \<or> (\<exists>f. fst (execute env WriteAccess CreateUser
                            (create_params email enc name) (db w)) = Inl f)
                 \<or> fst (execute env WriteAccess CreateUser
                            (create_params email enc name) (db w)) = Inr []
                 \<or> (\<exists>first rest m.
                       fst (execute env WriteAccess CreateUser
                            (create_params email enc name) (db w)) = Inr (first # rest)
                       \<and> jwt_sign env (userToClaims (prop_omit ''password'' first))
                            (JWT_SECRET env) = Inl m)))"
    by (auto simp add: register_fst split: sum.splits list.splits prod.splits option.splits)
next
  show "take 2 (new_calls w' (snd (authenticate env email pw w'))) =
       [EvSession (next_session w'),
        EvRun (next_session w') ReadAccess MatchUserByEmail [(''email'', Str email)]]"
    by (simp add: new_calls_append [OF authenticate_calls] match_params_def prop_set_def)
next
  fix user rest
  assume "fst (execute env ReadAccess MatchUserByEmail (match_params email) (db w'))
           = Inr (user # rest)
         \<and> close_fails env (next_session w') = None"
  then show "new_calls w' (snd (authenticate env email pw w')) ! 3
           = EvCompare pw (prop_get user ''password'')"
    by (simp add: new_calls_append [OF authenticate_calls] numeral_3_eq_3)
next
  fix e
  assume "fst (authenticate env email pw w') = Inl e"
  then show "(\<exists>f. fst (execute env ReadAccess MatchUserByEmail (match_params email) (db w')) = Inl f)
         \<or> (\<exists>f. close_fails env (next_session w') = Some f)
         \<or> (\<exists>user rest.
               fst (execute env ReadAccess MatchUserByEmail (match_params email) (db w'))
                 = Inr (user # rest)
               \<and> ((\<exists>m. bcrypt_compare env pw (prop_get user ''password'') = Inl m)
                  \<or> (\<exists>m. jwt_sign env (userToClaims (prop_omit ''password'' user))
                            (JWT_SECRET env) = Inl m)))"
    by (auto simp add: authenticate_fst
        split: sum.splits list.splits prod.splits if_splits option.splits)
qed

theorem inputs_not_validated_witness:
  "bcrypt_hash mem_env [] (SALT_ROUNDS mem_env) = Inr ''hashed:''
   \<and> take 3 (new_calls world0 (snd (register mem_env [] [] [] world0))) =
       [EvHash [] 10, EvSession 0,
        EvRun 0 WriteAccess CreateUser
          [(''email'', Str []), (''encrypted'', Str ''hashed:''), (''name'', Str [])]]
   \<and> fst (register mem_env [] [] [] world0)
       = Inr [(''userId'', Str ''user-''), (''email'', Str []), (''name'', Str []),
              (''token'', Str ''user-.user-..secret'')]
   \<and> take 2 (new_calls world1 (snd (authenticate mem_env [] [] world1))) =
       [EvSession 1, EvRun 1 ReadAccess MatchUserByEmail [(''email'', Str [])]]
   \<and> fst (authenticate mem_env [] [] world1) = Inr AuthFalse"
proof -
  have h: "bcrypt_hash mem_env [] (SALT_ROUNDS mem_env) = Inr ''hashed:''"
    by (simp add: mem_hash_def)
  have reg: "fst (register mem_env [] [] [] world0)
       = Inr [(''userId'', Str ''user-''), (''email'', Str []), (''name'', Str []),
              (''token'', Str ''user-.user-..secret'')]"
    by (simp add: register_fst mem_hash_def mem_execute_def world0_def create_params_def
        prop_set_def prop_get_def prop_omit_def userToClaims_def mem_sign_def dotless_def Let_def)
  have auth: "fst (authenticate mem_env [] [] world1) = Inr AuthFalse"
    by (simp add: authenticate_fst mem_execute_def world1_def alice_node_def
        match_params_def prop_set_def prop_get_def)
  have s: "next_session world0 = 0" "next_session world1 = 1"
    by (simp_all add: world0_def world1_def)
  from inputs_not_validated [of world0 mem_env "[]" "[]" "[]" world1] h
  have "take 3 (new_calls world0 (snd (register mem_env [] [] [] world0))) =
       [EvHash [] 10, EvSession 0,
        EvRun 0 WriteAccess CreateUser
          [(''email'', Str []), (''encrypted'', Str ''hashed:''), (''name'', Str [])]]"
    and "take 2 (new_calls world1 (snd (authenticate mem_env [] [] world1))) =
       [EvSession 1, EvRun 1 ReadAccess MatchUserByEmail [(''email'', Str [])]]"
    by (simp_all add: s)
  with h reg auth show ?thesis by simp
qed

end
